theory Spec2Isabelle
  imports Complex_Main "HOL-Library.Word" "HOL-Library.AList"
begin

section \<open>JavaScript values\<close>

text \<open>
  The backend (\<^verbatim>\<open>src/backend/server.js\<close>) is an ES module of two Express handlers.
  Everything it touches is a dynamically typed JavaScript value, so the model starts with
  those values.

  A JavaScript string is a sequence of UTF-16 code units; \<^verbatim>\<open>length\<close> and
  \<^verbatim>\<open>slice\<close> count code units. \<open>js\<close> turns a literal of the theory into such a string.
\<close>

type_synonym jsstring = "16 word list"

definition js :: "string \<Rightarrow> jsstring" where
  "js s = map (\<lambda>c. of_nat (of_char c)) s"

text \<open>
  A number is an IEEE double: not-a-number, an infinity (\<open>True\<close> for the negative one), or
  a finite value, which is a rational. The handlers never compute with numbers; they only
  test them for truthiness, convert them to strings and serialise them, and for these the
  two zeros behave alike, so \<open>Fin 0\<close> stands for both.
\<close>

datatype jsnum = NaN | Infinity bool | Fin rat

datatype jsval =
    JUndefined
  | JNull
  | JBool bool
  | JNum jsnum
  | JStr jsstring
  | JArr "jsval list"
  | JObj "(jsstring \<times> jsval) list"

text \<open>
  An object is the list of its own properties in enumeration order. The values the
  handlers receive are configuration strings and decoded JSON, so no value is a function.
\<close>

datatype error = TypeError | UpstreamError

text \<open>
  Built-ins of the runtime that the module calls and that are not part of the repository:
  \<^verbatim>\<open>JSON.parse\<close> (\<open>None\<close> when it throws a SyntaxError), the conversion of a number to a
  string, and \<^verbatim>\<open>String.prototype.toLowerCase\<close>. The handlers take them as a parameter.
\<close>

record platform =
  JSON_parse :: "jsstring \<Rightarrow> jsval option"
  Number_toString :: "jsnum \<Rightarrow> jsstring"
  toLowerCase :: "jsstring \<Rightarrow> jsstring"

definition andThen :: "error + 'a \<Rightarrow> ('a \<Rightarrow> error + 'b) \<Rightarrow> error + 'b" where
  "andThen m f = (case m of Inl e \<Rightarrow> Inl e | Inr x \<Rightarrow> f x)"

fun sequence :: "(error + 'a) list \<Rightarrow> error + 'a list" where
  "sequence [] = Inr []"
| "sequence (m # ms) =
     (case m of Inl e \<Rightarrow> Inl e
      | Inr x \<Rightarrow> (case sequence ms of Inl e \<Rightarrow> Inl e | Inr xs \<Rightarrow> Inr (x # xs)))"

subsection \<open>Truthiness, property access\<close>

fun truthy :: "jsval \<Rightarrow> bool" where
  "truthy JUndefined = False"
| "truthy JNull = False"
| "truthy (JBool b) = b"
| "truthy (JNum n) = (n \<noteq> NaN \<and> n \<noteq> Fin 0)"
| "truthy (JStr s) = (s \<noteq> [])"
| "truthy (JArr xs) = True"
| "truthy (JObj kvs) = True"

text \<open>\<^verbatim>\<open>a || b\<close>\<close>

definition or_else :: "jsval \<Rightarrow> jsval \<Rightarrow> jsval" where
  "or_else a b = (if truthy a then a else b)"

fun nullish :: "jsval \<Rightarrow> bool" where
  "nullish JUndefined = True"
| "nullish JNull = True"
| "nullish v = False"

text \<open>
  \<^verbatim>\<open>v.k\<close> for a \<open>v\<close> that is neither \<^verbatim>\<open>null\<close> nor \<^verbatim>\<open>undefined\<close>, and for the names
  this module reads (\<^verbatim>\<open>title\<close>, \<^verbatim>\<open>source\<close>, \<^verbatim>\<open>name\<close>, \<^verbatim>\<open>choices\<close>, \<^verbatim>\<open>takeaways\<close>, ...):
  none of them is an array index, \<^verbatim>\<open>length\<close>, or inherited from a built-in prototype,
  so the read finds an own property of an object or yields \<^verbatim>\<open>undefined\<close>.
\<close>

fun read_prop :: "jsval \<Rightarrow> jsstring \<Rightarrow> jsval" where
  "read_prop (JObj kvs) k = (case map_of kvs k of Some v \<Rightarrow> v | None \<Rightarrow> JUndefined)"
| "read_prop v k = JUndefined"

text \<open>\<^verbatim>\<open>v.k\<close> in general: reading a property of \<^verbatim>\<open>null\<close> or \<^verbatim>\<open>undefined\<close> throws.\<close>

definition getProp :: "jsval \<Rightarrow> jsstring \<Rightarrow> error + jsval" where
  "getProp v k = (if nullish v then Inl TypeError else Inr (read_prop v k))"

text \<open>\<^verbatim>\<open>v?.k\<close>\<close>

definition opt_prop :: "jsval \<Rightarrow> jsstring \<Rightarrow> jsval" where
  "opt_prop v k = (if nullish v then JUndefined else read_prop v k)"

text \<open>
  \<^verbatim>\<open>const { k = d } = obj\<close>, for an \<open>obj\<close> that is neither \<^verbatim>\<open>null\<close> nor \<^verbatim>\<open>undefined\<close>:
  the default applies only to \<^verbatim>\<open>undefined\<close>.
\<close>

definition destructure :: "jsval \<Rightarrow> jsstring \<Rightarrow> jsval \<Rightarrow> jsval" where
  "destructure obj k d = (let v = read_prop obj k in if v = JUndefined then d else v)"

subsection \<open>The response\<close>

text \<open>
  \<^verbatim>\<open>res.json(v)\<close> sends \<^verbatim>\<open>JSON.stringify(v)\<close>. \<open>wire\<close> is the JSON value that text denotes:
  a property whose value is \<^verbatim>\<open>undefined\<close> is left out, \<^verbatim>\<open>undefined\<close> in an array and a
  number that is not finite become \<^verbatim>\<open>null\<close>.
\<close>

fun wire :: "jsval \<Rightarrow> jsval" where
  "wire (JNum n) = (case n of Fin r \<Rightarrow> JNum n | _ \<Rightarrow> JNull)"
| "wire (JArr xs) = JArr (map (\<lambda>v. if v = JUndefined then JNull else wire v) xs)"
| "wire (JObj kvs) =
     JObj (map (\<lambda>(k, v). (k, wire v)) (filter (\<lambda>(k, v). v \<noteq> JUndefined) kvs))"
| "wire v = v"

record response =
  status :: nat
  body :: jsval

definition res_json :: "nat \<Rightarrow> jsval \<Rightarrow> response" where
  "res_json code v = \<lparr>status = code, body = wire v\<rparr>"

text \<open>An outbound call: \<^verbatim>\<open>axios.get(url, { params })\<close>, or a chat completion request made
  with the client's API key.\<close>

datatype call = AxiosGet jsstring jsval | ChatCompletionsCreate jsstring jsval

section \<open>Configuration (lines 13--20)\<close>

text \<open>\<^verbatim>\<open>process.env\<close>: every variable is a string or absent.\<close>

record env =
  env_NEWS_API_KEY :: "jsstring option"
  env_AI_PROVIDER :: "jsstring option"
  env_OPENAI_API_KEY :: "jsstring option"

definition env_val :: "jsstring option \<Rightarrow> jsval" where
  "env_val x = (case x of None \<Rightarrow> JUndefined | Some s \<Rightarrow> JStr s)"

definition NEWS_API_KEY :: "env \<Rightarrow> jsval" where
  "NEWS_API_KEY e = env_val (env_NEWS_API_KEY e)"

text \<open>\<^verbatim>\<open>(process.env.AI_PROVIDER || "openai").toLowerCase()\<close>: both operands are strings.\<close>

definition AI_PROVIDER :: "platform \<Rightarrow> env \<Rightarrow> jsstring" where
  "AI_PROVIDER P e =
     toLowerCase P (case env_AI_PROVIDER e of
                      None \<Rightarrow> js ''openai''
                    | Some s \<Rightarrow> if s \<noteq> [] then s else js ''openai'')"

text \<open>The client, represented by the key it was built with; \<open>None\<close> is \<^verbatim>\<open>null\<close>.\<close>

definition openaiClient :: "platform \<Rightarrow> env \<Rightarrow> jsstring option" where
  "openaiClient P e =
     (if AI_PROVIDER P e = js ''openai'' \<and> truthy (env_val (env_OPENAI_API_KEY e))
      then env_OPENAI_API_KEY e else None)"

section \<open>The news endpoint\<close>

subsection \<open>\<^verbatim>\<open>normalizeArticle\<close> (lines 25--36)\<close>

text \<open>The first read, \<^verbatim>\<open>a.title\<close>, throws when \<open>a\<close> is \<^verbatim>\<open>null\<close> or \<^verbatim>\<open>undefined\<close>; no
  other step can.\<close>

definition normalizeArticle :: "jsval \<Rightarrow> error + jsval" where
  "normalizeArticle a =
     (if nullish a then Inl TypeError
      else Inr (JObj
        [(js ''title'', or_else (read_prop a (js ''title'')) (JStr (js ''''))),
         (js ''source'',
            or_else (opt_prop (read_prop a (js ''source'')) (js ''name'')) (JStr (js ''Unknown''))),
         (js ''author'', or_else (read_prop a (js ''author'')) JNull),
         (js ''description'', or_else (read_prop a (js ''description'')) (JStr (js ''''))),
         (js ''content'', or_else (read_prop a (js ''content'')) (JStr (js ''''))),
         (js ''url'', read_prop a (js ''url'')),
         (js ''urlToImage'', or_else (read_prop a (js ''urlToImage'')) JNull),
         (js ''publishedAt'', or_else (read_prop a (js ''publishedAt'')) (JStr (js '''')))]))"

subsection \<open>\<^verbatim>\<open>GET /api/news\<close> (lines 45--93)\<close>

text \<open>\<^verbatim>\<open>category.toLowerCase()\<close>: only a string has the method.\<close>

fun call_toLowerCase :: "platform \<Rightarrow> jsval \<Rightarrow> error + jsval" where
  "call_toLowerCase P (JStr s) = Inr (JStr (toLowerCase P s))"
| "call_toLowerCase P v = Inl TypeError"

text \<open>\<^verbatim>\<open>if (v) params.k = v\<close>, on the property list of \<^verbatim>\<open>params\<close>.\<close>

definition set_if :: "jsval \<Rightarrow> jsstring \<Rightarrow> (jsstring \<times> jsval) list \<Rightarrow> (jsstring \<times> jsval) list" where
  "set_if v k ps = (if truthy v then AList.update k v ps else ps)"

text \<open>Lines 65--83: the upstream URL and the query parameters, from the destructured
  request parameters.\<close>

record news_query =
  nq_q :: jsval
  nq_country :: jsval
  nq_category :: jsval
  nq_from :: jsval
  nq_to :: jsval
  nq_pageSize :: jsval
  nq_page :: jsval
  nq_sortBy :: jsval

definition read_query :: "jsval \<Rightarrow> news_query" where
  "read_query query =
     \<lparr>nq_q = destructure query (js ''q'') (JStr (js '''')),
      nq_country = destructure query (js ''country'') (JStr (js '''')),
      nq_category = destructure query (js ''category'') (JStr (js '''')),
      nq_from = destructure query (js ''from'') (JStr (js '''')),
      nq_to = destructure query (js ''to'') (JStr (js '''')),
      nq_pageSize = destructure query (js ''pageSize'') (JStr (js ''10'')),
      nq_page = destructure query (js ''page'') (JStr (js ''1'')),
      nq_sortBy = destructure query (js ''sortBy'') (JStr (js ''publishedAt''))\<rparr>"

definition headlines_url :: jsstring where
  "headlines_url = js ''https://newsapi.org/v2/top-headlines''"

definition everything_url :: jsstring where
  "everything_url = js ''https://newsapi.org/v2/everything''"

definition select_mode ::
  "platform \<Rightarrow> jsval \<Rightarrow> news_query \<Rightarrow> error + (jsstring \<times> (jsstring \<times> jsval) list)" where
  "select_mode P key n =
     (let params = [(js ''apiKey'', key), (js ''pageSize'', nq_pageSize n), (js ''page'', nq_page n)]
      in if truthy (nq_country n) \<or> truthy (nq_category n) then
           (let params = set_if (nq_country n) (js ''country'') params
            in andThen
                 (if truthy (nq_category n)
                  then andThen (call_toLowerCase P (nq_category n))
                         (\<lambda>c. Inr (AList.update (js ''category'') c params))
                  else Inr params)
                 (\<lambda>params. Inr (headlines_url, set_if (nq_q n) (js ''q'') params)))
         else
           (let params = set_if (nq_q n) (js ''q'') params;
                params = set_if (nq_from n) (js ''from'') params;
                params = set_if (nq_to n) (js ''to'') params;
                params = AList.update (js ''sortBy'') (nq_sortBy n) params;
                params = (if \<not> truthy (read_prop (JObj params) (js ''q''))
                          then AList.update (js ''q'') (JStr (js ''news'')) params else params)
            in Inr (everything_url, params)))"

text \<open>\<^verbatim>\<open>xs.map(normalizeArticle)\<close>: only an array has the method; the first element on
  which the callback throws ends the call.\<close>

fun call_map :: "(jsval \<Rightarrow> error + jsval) \<Rightarrow> jsval \<Rightarrow> error + jsval" where
  "call_map f (JArr xs) = andThen (sequence (map f xs)) (\<lambda>ys. Inr (JArr ys))"
| "call_map f v = Inl TypeError"

text \<open>Lines 86--88, from the resolved \<^verbatim>\<open>resp\<close>.\<close>

definition news_response :: "jsval \<Rightarrow> error + response" where
  "news_response resp =
     andThen (getProp resp (js ''data'')) (\<lambda>data.
     andThen (getProp data (js ''articles'')) (\<lambda>arts.
     andThen (call_map normalizeArticle (or_else arts (JArr []))) (\<lambda>articles.
     andThen (getProp data (js ''totalResults'')) (\<lambda>total.
       Inr (res_json 200 (JObj
         [(js ''totalResults'', or_else total (JNum (Fin 0))),
          (js ''articles'', articles)]))))))"

definition news_key_missing :: jsval where
  "news_key_missing =
     JObj [(js ''error'',
            JStr (js ''NEWS_API_KEY missing. Add it to backend .env (NEWS_API_KEY=...).''))]"

text \<open>The body of the \<^verbatim>\<open>try\<close>: the calls made, and the response or the exception.\<close>

definition news_try ::
  "platform \<Rightarrow> env \<Rightarrow> (jsstring \<Rightarrow> jsval \<Rightarrow> error + jsval) \<Rightarrow> jsval
     \<Rightarrow> call list \<times> (error + response)" where
  "news_try P e axios_get query =
     (if nullish query then ([], Inl TypeError)
      else if \<not> truthy (NEWS_API_KEY e) then ([], Inr (res_json 500 news_key_missing))
      else case select_mode P (NEWS_API_KEY e) (read_query query) of
             Inl err \<Rightarrow> ([], Inl err)
           | Inr (url, params) \<Rightarrow>
               ([AxiosGet url (JObj params)],
                andThen (axios_get url (JObj params)) news_response))"

definition news ::
  "platform \<Rightarrow> env \<Rightarrow> (jsstring \<Rightarrow> jsval \<Rightarrow> error + jsval) \<Rightarrow> jsval \<Rightarrow> call list \<times> response" where
  "news P e axios_get query =
     (case news_try P e axios_get query of
        (calls, Inr r) \<Rightarrow> (calls, r)
      | (calls, Inl err) \<Rightarrow>
          (calls, res_json 500 (JObj [(js ''error'', JStr (js ''Failed to fetch news''))])))"

section \<open>The enrichment endpoint\<close>

subsection \<open>String conversion and string methods\<close>

text \<open>\<^verbatim>\<open>String.prototype.trim\<close> removes the white space and line terminator code units
  from both ends.\<close>

definition is_ws :: "16 word \<Rightarrow> bool" where
  "is_ws c \<longleftrightarrow>
     c \<in> set [0x0009, 0x000A, 0x000B, 0x000C, 0x000D, 0x0020, 0x00A0, 0x1680,
              0x2000, 0x2001, 0x2002, 0x2003, 0x2004, 0x2005, 0x2006, 0x2007,
              0x2008, 0x2009, 0x200A, 0x2028, 0x2029, 0x202F, 0x205F, 0x3000, 0xFEFF]"

definition trim :: "jsstring \<Rightarrow> jsstring" where
  "trim s = rev (dropWhile is_ws (rev (dropWhile is_ws s)))"

fun join :: "jsstring \<Rightarrow> jsstring list \<Rightarrow> jsstring" where
  "join sep [] = []"
| "join sep [x] = x"
| "join sep (x # y # ys) = x @ sep @ join sep (y # ys)"

text \<open>
  \<^verbatim>\<open>String(v)\<close>. An array is joined with commas, \<^verbatim>\<open>null\<close> and \<^verbatim>\<open>undefined\<close> elements
  as empty strings. A plain object is \<^verbatim>\<open>[object Object]\<close> through the inherited
  \<^verbatim>\<open>toString\<close>; an own property of that name (in decoded JSON never a function) hides it,
  \<^verbatim>\<open>valueOf\<close> does not yield a primitive either, and the conversion throws.
\<close>

fun ToString :: "platform \<Rightarrow> jsval \<Rightarrow> error + jsstring" where
  "ToString P JUndefined = Inr (js ''undefined'')"
| "ToString P JNull = Inr (js ''null'')"
| "ToString P (JBool b) = Inr (if b then js ''true'' else js ''false'')"
| "ToString P (JNum n) = Inr (Number_toString P n)"
| "ToString P (JStr s) = Inr s"
| "ToString P (JArr xs) =
     andThen (sequence (map (\<lambda>v. if nullish v then Inr [] else ToString P v) xs))
       (\<lambda>ss. Inr (join (js '','') ss))"
| "ToString P (JObj kvs) =
     (case map_of kvs (js ''toString'') of
        None \<Rightarrow> Inr (js ''[object Object]'')
      | Some v \<Rightarrow> Inl TypeError)"

text \<open>\<^verbatim>\<open>xs.join(sep)\<close> on an array with elements \<open>xs\<close>.\<close>

definition Array_join :: "platform \<Rightarrow> jsstring \<Rightarrow> jsval list \<Rightarrow> error + jsstring" where
  "Array_join P sep xs =
     andThen (sequence (map (\<lambda>v. if nullish v then Inr [] else ToString P v) xs))
       (\<lambda>ss. Inr (join sep ss))"

text \<open>\<^verbatim>\<open>v?.[0]\<close> for a \<open>v\<close> that is neither \<^verbatim>\<open>null\<close> nor \<^verbatim>\<open>undefined\<close>.\<close>

fun elem0 :: "jsval \<Rightarrow> jsval" where
  "elem0 (JArr xs) = (case xs of [] \<Rightarrow> JUndefined | x # _ \<Rightarrow> x)"
| "elem0 (JStr s) = (case s of [] \<Rightarrow> JUndefined | c # _ \<Rightarrow> JStr [c])"
| "elem0 (JObj kvs) = read_prop (JObj kvs) (js ''0'')"
| "elem0 v = JUndefined"

text \<open>\<^verbatim>\<open>v?.trim()\<close>: short-circuits on \<^verbatim>\<open>null\<close> and \<^verbatim>\<open>undefined\<close>; of the other values
  only a string has the method.\<close>

fun opt_call_trim :: "jsval \<Rightarrow> error + jsval" where
  "opt_call_trim JUndefined = Inr JUndefined"
| "opt_call_trim JNull = Inr JUndefined"
| "opt_call_trim (JStr s) = Inr (JStr (trim s))"
| "opt_call_trim v = Inl TypeError"

text \<open>\<^verbatim>\<open>v.slice(0, n)\<close>: arrays and strings have the method.\<close>

fun call_slice :: "jsval \<Rightarrow> nat \<Rightarrow> error + jsval" where
  "call_slice (JArr xs) n = Inr (JArr (take n xs))"
| "call_slice (JStr s) n = Inr (JStr (take n s))"
| "call_slice v n = Inl TypeError"

text \<open>\<^verbatim>\<open>v.concat(a)\<close> for an array \<open>a\<close> with elements \<open>xs\<close>: an array appends the elements,
  a string appends \<^verbatim>\<open>String(a)\<close>.\<close>

fun call_concat :: "platform \<Rightarrow> jsval \<Rightarrow> jsval list \<Rightarrow> error + jsval" where
  "call_concat P (JArr ys) xs = Inr (JArr (ys @ xs))"
| "call_concat P (JStr s) xs = andThen (ToString P (JArr xs)) (\<lambda>t. Inr (JStr (s @ t)))"
| "call_concat P v xs = Inl TypeError"

text \<open>
  \<^verbatim>\<open>o.k = v\<close> in strict mode (the file is an ES module). On an array the assignment
  creates a named property beside the elements; the handler reads no property after
  assigning it and \<^verbatim>\<open>JSON.stringify\<close> emits the elements only, so the array is left as
  it is. On a primitive, \<^verbatim>\<open>null\<close> or \<^verbatim>\<open>undefined\<close> the assignment throws.
\<close>

fun setProp :: "jsval \<Rightarrow> jsstring \<Rightarrow> jsval \<Rightarrow> error + jsval" where
  "setProp (JObj kvs) k v = Inr (JObj (AList.update k v kvs))"
| "setProp (JArr xs) k v = Inr (JArr xs)"
| "setProp w k v = Inl TypeError"

subsection \<open>\<^verbatim>\<open>POST /api/ai/enrich\<close> (lines 100--170)\<close>

text \<open>Line 111.\<close>

definition enrich_text :: "platform \<Rightarrow> jsval \<Rightarrow> jsval \<Rightarrow> jsval \<Rightarrow> error + jsstring" where
  "enrich_text P title description content =
     Array_join P (js ''\<newline>\<newline>'') (filter truthy [title, description, content])"

text \<open>Lines 113--124: the template literal around \<^verbatim>\<open>${text}\<close>, then \<^verbatim>\<open>.trim()\<close>.\<close>

definition prompt_head :: jsstring where
  \<open>prompt_head = js (''\<newline>You are an assistant that analyzes news articles.\<newline>'' @
     ''Given the article text below, return a JSON object with:\<newline>'' @
     ''- "summary100": a concise summary under 100 words.\<newline>'' @
     ''- "sentiment": one of "Positive", "Negative", or "Neutral".\<newline>'' @
     ''- "takeaways": exactly 3 short bullet points (strings).\<newline>'' @
     ''\<newline>Article:\<newline>'')\<close>

definition prompt_tail :: jsstring where
  \<open>prompt_tail =
     js ''\<newline>\<newline>Respond ONLY with valid JSON (no backticks, no extra text).\<newline>''\<close>

definition prompt :: "jsstring \<Rightarrow> jsstring" where
  "prompt text = trim (prompt_head @ text @ prompt_tail)"

text \<open>Lines 126--133: the request.\<close>

definition chat_request :: "jsstring \<Rightarrow> jsval" where
  "chat_request p =
     JObj [(js ''model'', JStr (js ''gpt-4o-mini'')),
           (js ''temperature'', JNum (Fin (3 / 10))),
           (js ''messages'', JArr
              [JObj [(js ''role'', JStr (js ''system'')),
                     (js ''content'', JStr (js ''You are a helpful news assistant.''))],
               JObj [(js ''role'', JStr (js ''user'')),
                     (js ''content'', JStr p)]])]"

text \<open>Line 135: \<^verbatim>\<open>completion.choices?.[0]?.message?.content?.trim() || "{}"\<close>.\<close>

definition raw_text :: "jsval \<Rightarrow> error + jsstring" where
  \<open>raw_text completion =
     andThen (getProp completion (js ''choices'')) (\<lambda>choices.
       let first = (if nullish choices then JUndefined else elem0 choices);
           message = opt_prop first (js ''message'');
           content = opt_prop message (js ''content'')
       in andThen (opt_call_trim content) (\<lambda>t.
            Inr (case or_else t (JStr (js ''{}'')) of JStr s \<Rightarrow> s | _ \<Rightarrow> js ''{}'')))\<close>

text \<open>Lines 137--152.\<close>

definition fallback :: jsval where
  "fallback =
     JObj [(js ''summary100'',
              JStr (js ''Summary not available due to parsing error. Please try again.'')),
           (js ''sentiment'', JStr (js ''Neutral'')),
           (js ''takeaways'', JArr
              [JStr (js ''Summary failed to parse.''),
               JStr (js ''Try again or open the article.''),
               JStr (js ''Check network/API limits.'')])]"

definition parse_or_fallback :: "platform \<Rightarrow> jsstring \<Rightarrow> jsval" where
  "parse_or_fallback P raw = (case JSON_parse P raw of Some v \<Rightarrow> v | None \<Rightarrow> fallback)"

text \<open>Lines 154--163, ``ensure shape''.\<close>

definition allowed :: "jsval list" where
  "allowed = [JStr (js ''Positive''), JStr (js ''Negative''), JStr (js ''Neutral'')]"

definition ensure_summary :: "platform \<Rightarrow> jsval \<Rightarrow> error + jsval" where
  "ensure_summary P parsed =
     andThen (getProp parsed (js ''summary100'')) (\<lambda>s.
     andThen (ToString P (or_else s (JStr (js '''')))) (\<lambda>str.
       setProp parsed (js ''summary100'') (JStr (take 900 str))))"

definition ensure_sentiment :: "jsval \<Rightarrow> error + jsval" where
  "ensure_sentiment parsed =
     (if read_prop parsed (js ''sentiment'') \<notin> set allowed
      then setProp parsed (js ''sentiment'') (JStr (js ''Neutral''))
      else Inr parsed)"

definition ensure_takeaways :: "platform \<Rightarrow> jsval \<Rightarrow> error + jsval" where
  "ensure_takeaways P parsed =
     (let t = read_prop parsed (js ''takeaways'')
      in if (case t of JArr xs \<Rightarrow> length xs \<noteq> 3 | _ \<Rightarrow> True) then
           andThen (call_slice (or_else t (JArr [])) 3) (\<lambda>a.
           andThen (call_concat P a (replicate 3 (JStr (js '''')))) (\<lambda>b.
           andThen (call_slice b 3) (\<lambda>c.
             setProp parsed (js ''takeaways'') c)))
         else Inr parsed)"

definition ensure_shape :: "platform \<Rightarrow> jsval \<Rightarrow> error + jsval" where
  "ensure_shape P parsed =
     andThen (ensure_summary P parsed) (\<lambda>parsed.
     andThen (ensure_sentiment parsed) (\<lambda>parsed.
       ensure_takeaways P parsed))"

text \<open>Lines 135--165, from the resolved \<^verbatim>\<open>completion\<close>.\<close>

definition enrich_response :: "platform \<Rightarrow> jsval \<Rightarrow> error + response" where
  "enrich_response P completion =
     andThen (raw_text completion) (\<lambda>raw.
     andThen (ensure_shape P (parse_or_fallback P raw)) (\<lambda>parsed.
       Inr (res_json 200 parsed)))"

definition ai_not_configured :: jsval where
  "ai_not_configured =
     JObj [(js ''error'',
            JStr (js ''AI provider not configured. Set AI_PROVIDER=openai and OPENAI_API_KEY in .env''))]"

text \<open>The body of the \<^verbatim>\<open>try\<close>: the calls made, and the response or the exception. The
  destructuring of \<^verbatim>\<open>req.body\<close> throws when the body is \<^verbatim>\<open>null\<close> or \<^verbatim>\<open>undefined\<close>.\<close>

definition enrich_try ::
  "platform \<Rightarrow> env \<Rightarrow> (jsstring \<Rightarrow> jsval \<Rightarrow> error + jsval) \<Rightarrow> jsval
     \<Rightarrow> call list \<times> (error + response)" where
  "enrich_try P e create req_body =
     (if nullish req_body then ([], Inl TypeError)
      else
        let title = destructure req_body (js ''title'') (JStr (js ''''));
            description = destructure req_body (js ''description'') (JStr (js ''''));
            content = destructure req_body (js ''content'') (JStr (js ''''))
        in case (if AI_PROVIDER P e \<noteq> js ''openai'' then None else openaiClient P e) of
             None \<Rightarrow> ([], Inr (res_json 500 ai_not_configured))
           | Some key \<Rightarrow>
               (case enrich_text P title description content of
                  Inl err \<Rightarrow> ([], Inl err)
                | Inr text \<Rightarrow>
                    ([ChatCompletionsCreate key (chat_request (prompt text))],
                     andThen (create key (chat_request (prompt text))) (enrich_response P))))"

definition enrich ::
  "platform \<Rightarrow> env \<Rightarrow> (jsstring \<Rightarrow> jsval \<Rightarrow> error + jsval) \<Rightarrow> jsval \<Rightarrow> call list \<times> response" where
  "enrich P e create req_body =
     (case enrich_try P e create req_body of
        (calls, Inr r) \<Rightarrow> (calls, r)
      | (calls, Inl err) \<Rightarrow>
          (calls, res_json 500 (JObj [(js ''error'', JStr (js ''Failed to enrich article''))])))"

section \<open>Vocabulary of the specification\<close>

text \<open>The keys of the Article shape, in the order \<^verbatim>\<open>normalizeArticle\<close> writes them.\<close>

definition article_keys :: "jsstring list" where
  "article_keys = map js [''title'', ''source'', ''author'', ''description'', ''content'',
     ''url'', ''urlToImage'', ''publishedAt'']"

text \<open>The fields with a default that is the same whatever the record, and that default.\<close>

definition article_defaults :: "(jsstring \<times> jsval) list" where
  "article_defaults =
     [(js ''title'', JStr (js '''')), (js ''author'', JNull),
      (js ''description'', JStr (js '''')), (js ''content'', JStr (js '''')),
      (js ''urlToImage'', JNull), (js ''publishedAt'', JStr (js ''''))]"

text \<open>The field \<open>k\<close> of the normalized article of the record \<open>a\<close>.\<close>

definition article_field :: "jsval \<Rightarrow> jsstring \<Rightarrow> error + jsval" where
  "article_field a k = andThen (normalizeArticle a) (\<lambda>art. Inr (read_prop art k))"

text \<open>The article of the record \<open>a\<close> as the response carries it.\<close>

definition sent_article :: "jsval \<Rightarrow> error + jsval" where
  "sent_article a = andThen (normalizeArticle a) (\<lambda>art. Inr (wire art))"

text \<open>The property names of a result that is an object.\<close>

definition keys_of :: "error + jsval \<Rightarrow> jsstring list" where
  "keys_of r = (case r of Inr (JObj kvs) \<Rightarrow> map fst kvs | _ \<Rightarrow> [])"

text \<open>\<open>sent_if k v\<close>: the query parameter \<open>k\<close> with the string \<open>v\<close>, sent only if \<open>v\<close> is
  not empty.\<close>

definition sent_if :: "jsstring \<Rightarrow> jsstring \<Rightarrow> (jsstring \<times> jsval) list" where
  "sent_if k v = (if v = [] then [] else [(k, JStr v)])"

text \<open>The completion has no text: no choices, or a first choice whose message text is
  missing, empty or white space only.\<close>

definition no_text :: "jsval \<Rightarrow> bool" where
  "no_text completion \<longleftrightarrow>
     \<not> nullish completion \<and>
     (case read_prop completion (js ''choices'') of
        JUndefined \<Rightarrow> True
      | JNull \<Rightarrow> True
      | JArr [] \<Rightarrow> True
      | JArr (first # rest) \<Rightarrow>
          (case opt_prop (opt_prop first (js ''message'')) (js ''content'') of
             JUndefined \<Rightarrow> True
           | JNull \<Rightarrow> True
           | JStr s \<Rightarrow> list_all is_ws s
           | _ \<Rightarrow> False)
      | _ \<Rightarrow> False)"

text \<open>The query parameter \<open>k\<close> of a request when it is a string: the empty string when
  the request does not carry it, nothing when it is anything else (a repeated parameter
  arrives as an array).\<close>

definition string_param :: "jsval \<Rightarrow> jsstring \<Rightarrow> jsstring option" where
  "string_param query k =
     (case read_prop query k of JUndefined \<Rightarrow> Some [] | JStr s \<Rightarrow> Some s | _ \<Rightarrow> None)"

text \<open>The query parameter \<open>k\<close> of a request, or the string \<open>d\<close> when the request does not
  carry it.\<close>

definition param_or :: "jsval \<Rightarrow> jsstring \<Rightarrow> jsstring \<Rightarrow> jsval" where
  "param_or query k d = (case read_prop query k of JUndefined \<Rightarrow> JStr d | v \<Rightarrow> v)"

text \<open>The text of the completion: the content of the message of the first of its
  choices, when that is a string.\<close>

definition completion_text :: "jsval \<Rightarrow> jsstring option" where
  "completion_text completion =
     (if nullish completion then None
      else case read_prop completion (js ''choices'') of
             JArr (first # rest) \<Rightarrow>
               (case opt_prop (opt_prop first (js ''message'')) (js ''content'') of
                  JStr s \<Rightarrow> Some s
                | _ \<Rightarrow> None)
           | _ \<Rightarrow> None)"

section \<open>A sample runtime and sample collaborators\<close>

text \<open>
  For evaluating the handlers at concrete inputs: a runtime that lowers the ASCII
  letters, decodes the JSON texts the examples use and rejects any other text, and that
  converts the numbers the examples use (none but zero, the infinities and not-a-number).
\<close>

definition ascii_lower :: "16 word \<Rightarrow> 16 word" where
  "ascii_lower c = (if 0x41 \<le> c \<and> c \<le> 0x5A then c + 0x20 else c)"

definition sample_parse :: "jsstring \<Rightarrow> jsval option" where
  \<open>sample_parse s =
     (if s = js ''{}'' then Some (JObj [])
      else if s = js ''{"summary100":"ok","sentiment":"Positive","takeaways":"abcdef"}''
      then Some (JObj [(js ''summary100'', JStr (js ''ok'')),
                       (js ''sentiment'', JStr (js ''Positive'')),
                       (js ''takeaways'', JStr (js ''abcdef''))])
      else None)\<close>

definition sample_platform :: platform where
  "sample_platform =
     \<lparr>JSON_parse = sample_parse,
      Number_toString =
        (\<lambda>n. case n of NaN \<Rightarrow> js ''NaN''
              | Infinity neg \<Rightarrow> (if neg then js ''-Infinity'' else js ''Infinity'')
              | Fin r \<Rightarrow> js ''0''),
      toLowerCase = map ascii_lower\<rparr>"

definition sample_env :: env where
  "sample_env =
     \<lparr>env_NEWS_API_KEY = Some (js ''news-key''),
      env_AI_PROVIDER = Some (js ''OpenAI''),
      env_OPENAI_API_KEY = Some (js ''sk-key'')\<rparr>"

definition no_env :: env where
  "no_env = \<lparr>env_NEWS_API_KEY = None, env_AI_PROVIDER = None, env_OPENAI_API_KEY = None\<rparr>"

text \<open>A news provider that answers every request with one record.\<close>

definition sample_get :: "jsstring \<Rightarrow> jsval \<Rightarrow> error + jsval" where
  "sample_get url params =
     Inr (JObj [(js ''data'', JObj
       [(js ''status'', JStr (js ''ok'')),
        (js ''totalResults'', JNum (Fin 1)),
        (js ''articles'', JArr [JObj [(js ''title'', JStr (js ''T''))]])])])"

text \<open>A completion provider that answers every request with one choice of the given
  text.\<close>

definition answer_with :: "jsstring \<Rightarrow> jsstring \<Rightarrow> jsval \<Rightarrow> error + jsval" where
  "answer_with text key request =
     Inr (JObj [(js ''choices'', JArr
       [JObj [(js ''index'', JNum (Fin 0)),
              (js ''message'', JObj [(js ''role'', JStr (js ''assistant'')),
                                     (js ''content'', JStr text)])]])])"

section \<open>Basic facts\<close>

lemma unit_inj: "(of_nat (of_char c) :: 16 word) = of_nat (of_char d) \<longleftrightarrow> c = d"
proof -
  have tb: "take_bit 16 (of_char c :: nat) = of_char c" for c :: char
    by (rule take_bit_nat_eq_self, rule less_trans [OF nat_of_char_less_256]) simp
  show ?thesis
    by (simp add: word_of_nat_eq_iff tb)
qed

lemma js_Nil [simp]: "js [] = []"
  by (simp add: js_def)

lemma js_Cons: "js (c # s) = of_nat (of_char c) # js s"
  by (simp add: js_def)

lemma js_append: "js (a @ b) = js a @ js b"
  by (simp add: js_def)

lemma length_js [simp]: "length (js s) = length s"
  by (simp add: js_def)

lemma js_inj [simp]: "js a = js b \<longleftrightarrow> a = b"
proof -
  have "inj (\<lambda>c. of_nat (of_char c) :: 16 word)"
    by (rule injI) (simp add: unit_inj)
  then show ?thesis
    unfolding js_def by (rule inj_map_eq_map)
qed

lemma js_eq_Nil [simp]: "js s = [] \<longleftrightarrow> s = []" "[] = js s \<longleftrightarrow> s = []"
  by (auto simp: js_def)

lemma or_else_defined [simp]: "d \<noteq> JUndefined \<Longrightarrow> or_else x d \<noteq> JUndefined"
  by (cases x) (auto simp: or_else_def)

lemma or_else_falsy [simp]: "\<not> truthy x \<Longrightarrow> or_else x d = d"
  by (simp add: or_else_def)

lemma or_else_truthy [simp]: "truthy x \<Longrightarrow> or_else x d = x"
  by (simp add: or_else_def)

lemma falsy_name [simp]: "\<not> truthy v \<Longrightarrow> opt_prop v k = JUndefined"
  by (cases v) (simp_all add: opt_prop_def)

lemma andThen_simps [simp]:
  "andThen (Inl err) f = Inl err"
  "andThen (Inr x) f = f x"
  by (simp_all add: andThen_def)

section \<open>Normalization of articles\<close>

lemma or_else_not_empty: "d \<noteq> JStr [] \<Longrightarrow> or_else x d \<noteq> JStr []"
  by (cases "truthy x") auto

lemma or_else_empty_cases: "truthy (or_else x (JStr [])) \<or> or_else x (JStr []) = JStr []"
  by (cases "truthy x") auto

text \<open>
  Claim C2, as the code has it. For every upstream record that is neither \<^verbatim>\<open>null\<close> nor
  \<^verbatim>\<open>undefined\<close>, whatever fields it carries, \<^verbatim>\<open>normalizeArticle\<close> returns an object with
  exactly the eight keys of the Article shape, and a field absent from the record has
  its default: the empty string for \<^verbatim>\<open>title\<close>, \<^verbatim>\<open>description\<close>, \<^verbatim>\<open>content\<close> and
  \<^verbatim>\<open>publishedAt\<close>, \<^verbatim>\<open>"Unknown"\<close> for \<^verbatim>\<open>source\<close>, \<^verbatim>\<open>null\<close> for \<^verbatim>\<open>author\<close> and
  \<^verbatim>\<open>urlToImage\<close>. \<^verbatim>\<open>url\<close> has no default: it is the record's own value, \<^verbatim>\<open>undefined\<close>
  when the record has none, and then the article in the JSON response has the seven
  other keys only.
\<close>

theorem normalizeArticle_keys:
  assumes "\<not> nullish a"
  shows "keys_of (normalizeArticle a) = article_keys
    \<and> (read_prop a (js ''title'') = JUndefined \<longrightarrow>
          article_field a (js ''title'') = Inr (JStr (js '''')))
    \<and> (read_prop a (js ''source'') = JUndefined \<longrightarrow>
          article_field a (js ''source'') = Inr (JStr (js ''Unknown'')))
    \<and> (read_prop a (js ''author'') = JUndefined \<longrightarrow>
          article_field a (js ''author'') = Inr JNull)
    \<and> (read_prop a (js ''description'') = JUndefined \<longrightarrow>
          article_field a (js ''description'') = Inr (JStr (js '''')))
    \<and> (read_prop a (js ''content'') = JUndefined \<longrightarrow>
          article_field a (js ''content'') = Inr (JStr (js '''')))
    \<and> (read_prop a (js ''urlToImage'') = JUndefined \<longrightarrow>
          article_field a (js ''urlToImage'') = Inr JNull)
    \<and> (read_prop a (js ''publishedAt'') = JUndefined \<longrightarrow>
          article_field a (js ''publishedAt'') = Inr (JStr (js '''')))
    \<and> article_field a (js ''url'') = Inr (read_prop a (js ''url''))
    \<and> keys_of (sent_article a) =
        (if read_prop a (js ''url'') = JUndefined
         then removeAll (js ''url'') article_keys else article_keys)"
  using assms
  by (simp add: normalizeArticle_def article_keys_def keys_of_def article_field_def sent_article_def)

theorem normalizeArticle_keys_witness:
  "keys_of (normalizeArticle (JObj [(js ''url'', JStr (js ''https://example.org/a''))])) = article_keys
   \<and> article_field (JObj [(js ''url'', JStr (js ''https://example.org/a''))]) (js ''author'') = Inr JNull
   \<and> article_field (JObj [(js ''url'', JStr (js ''https://example.org/a''))]) (js ''source'')
       = Inr (JStr (js ''Unknown''))
   \<and> keys_of (sent_article (JObj [(js ''url'', JStr (js ''https://example.org/a''))])) = article_keys
   \<and> keys_of (sent_article (JObj [])) = removeAll (js ''url'') article_keys"
  using normalizeArticle_keys [of "JObj [(js ''url'', JStr (js ''https://example.org/a''))]"]
    normalizeArticle_keys [of "JObj []"]
  by simp

text \<open>
  Claim C2 as stated fails: upstream answers with one record that has a title and no
  \<^verbatim>\<open>url\<close>; the article in the response of the endpoint has seven keys, \<^verbatim>\<open>url\<close> is not
  among them.
\<close>

theorem url_key_counterexample:
  "news_response
     (JObj [(js ''data'', JObj [(js ''articles'', JArr [JObj [(js ''title'', JStr (js ''T''))]])])])
   = Inr \<lparr>status = 200, body = JObj
       [(js ''totalResults'', JNum (Fin 0)),
        (js ''articles'', JArr [JObj
           [(js ''title'', JStr (js ''T'')), (js ''source'', JStr (js ''Unknown'')),
            (js ''author'', JNull), (js ''description'', JStr (js '''')),
            (js ''content'', JStr (js '''')), (js ''urlToImage'', JNull),
            (js ''publishedAt'', JStr (js ''''))]])]\<rparr>
   \<and> js ''url'' \<notin> set (keys_of (sent_article (JObj [(js ''title'', JStr (js ''T''))])))"
  by (simp add: news_response_def getProp_def normalizeArticle_def opt_prop_def res_json_def
      keys_of_def sent_article_def)

text \<open>
  Claim C6, as the code has it. For every upstream record (neither \<^verbatim>\<open>null\<close> nor
  \<^verbatim>\<open>undefined\<close>) whose \<^verbatim>\<open>source\<close> is absent, the normalized article's \<^verbatim>\<open>source\<close> is the
  string \<^verbatim>\<open>"Unknown"\<close>; \<^verbatim>\<open>title\<close>, \<^verbatim>\<open>description\<close> and \<^verbatim>\<open>content\<close> are the empty string
  when absent upstream.
\<close>

theorem absent_field_defaults:
  assumes "\<not> nullish a"
  shows "(read_prop a (js ''source'') = JUndefined \<longrightarrow>
            article_field a (js ''source'') = Inr (JStr (js ''Unknown'')))
       \<and> (read_prop a (js ''title'') = JUndefined \<longrightarrow>
            article_field a (js ''title'') = Inr (JStr (js '''')))
       \<and> (read_prop a (js ''description'') = JUndefined \<longrightarrow>
            article_field a (js ''description'') = Inr (JStr (js '''')))
       \<and> (read_prop a (js ''content'') = JUndefined \<longrightarrow>
            article_field a (js ''content'') = Inr (JStr (js '''')))"
  using assms by (simp add: article_field_def normalizeArticle_def)

theorem absent_field_defaults_witness:
  "article_field (JObj []) (js ''source'') = Inr (JStr (js ''Unknown''))
   \<and> article_field (JObj []) (js ''title'') = Inr (JStr (js ''''))
   \<and> article_field (JObj []) (js ''description'') = Inr (JStr (js ''''))
   \<and> article_field (JObj []) (js ''content'') = Inr (JStr (js ''''))"
  using absent_field_defaults [of "JObj []"] by simp

text \<open>
  Claim C6 as stated fails: a record with a title and no \<^verbatim>\<open>source\<close> is normalized to an
  article whose \<^verbatim>\<open>source\<close> is \<^verbatim>\<open>"Unknown"\<close>, not the empty string.
\<close>

theorem source_default_counterexample:
  "read_prop (JObj [(js ''title'', JStr (js ''T''))]) (js ''source'') = JUndefined
   \<and> article_field (JObj [(js ''title'', JStr (js ''T''))]) (js ''source'')
       = Inr (JStr (js ''Unknown''))
   \<and> article_field (JObj [(js ''title'', JStr (js ''T''))]) (js ''source'')
       \<noteq> Inr (JStr (js ''''))"
  by (simp add: article_field_def normalizeArticle_def)

text \<open>
  Claim C8. The normalization is a function of the record alone, and of nothing in the
  record but the eight fields it reads: two records that agree on them (and are both, or
  neither, \<^verbatim>\<open>null\<close> or \<^verbatim>\<open>undefined\<close>) have equal normalized articles. Equal records are
  the special case.
\<close>

theorem normalizeArticle_depends_on_fields:
  assumes "nullish a = nullish b"
      and "\<forall>k \<in> set article_keys. read_prop a k = read_prop b k"
  shows "normalizeArticle a = normalizeArticle b"
  using assms by (simp add: normalizeArticle_def article_keys_def)

theorem normalizeArticle_depends_on_fields_witness:
  "normalizeArticle (JObj [(js ''title'', JStr (js ''T'')), (js ''extra'', JNull)])
   = normalizeArticle (JObj [(js ''title'', JStr (js ''T''))])"
  using normalizeArticle_depends_on_fields
    [of "JObj [(js ''title'', JStr (js ''T'')), (js ''extra'', JNull)]"
        "JObj [(js ''title'', JStr (js ''T''))]"]
  by (simp add: article_keys_def)

text \<open>
  Claim C9. Defaulting goes by truthiness. A record in which a field other than \<^verbatim>\<open>url\<close>
  has a falsy value is normalized exactly as the record without that field, and the
  field of the article is its default. So \<^verbatim>\<open>author\<close> and \<^verbatim>\<open>urlToImage\<close> of an article
  are never the empty string, and \<^verbatim>\<open>title\<close>, \<^verbatim>\<open>description\<close>, \<^verbatim>\<open>content\<close> and
  \<^verbatim>\<open>publishedAt\<close> are never falsy unless they are the empty string.
\<close>

theorem falsy_field_defaulted:
  "(\<not> truthy v \<and> k \<noteq> js ''url'' \<longrightarrow>
      normalizeArticle (JObj (AList.update k v kvs)) = normalizeArticle (JObj (AList.delete k kvs)))
   \<and> (\<not> truthy v \<and> (k, d) \<in> set article_defaults \<longrightarrow>
      article_field (JObj (AList.update k v kvs)) k = Inr d)
   \<and> article_field a (js ''author'') \<noteq> Inr (JStr (js ''''))
   \<and> article_field a (js ''urlToImage'') \<noteq> Inr (JStr (js ''''))
   \<and> (k' \<in> set (map js [''title'', ''description'', ''content'', ''publishedAt''])
        \<and> article_field a k' = Inr w \<longrightarrow> truthy w \<or> w = JStr (js ''''))"
proof (intro conjI impI)
  assume "\<not> truthy v \<and> k \<noteq> js ''url''"
  then show "normalizeArticle (JObj (AList.update k v kvs))
             = normalizeArticle (JObj (AList.delete k kvs))"
    by (auto simp: normalizeArticle_def update_conv' delete_conv')
next
  assume "\<not> truthy v \<and> (k, d) \<in> set article_defaults"
  then show "article_field (JObj (AList.update k v kvs)) k = Inr d"
    by (auto simp: article_defaults_def article_field_def normalizeArticle_def update_conv')
next
  show "article_field a (js ''author'') \<noteq> Inr (JStr (js ''''))"
    by (simp add: article_field_def normalizeArticle_def or_else_not_empty)
next
  show "article_field a (js ''urlToImage'') \<noteq> Inr (JStr (js ''''))"
    by (simp add: article_field_def normalizeArticle_def or_else_not_empty)
next
  assume "k' \<in> set (map js [''title'', ''description'', ''content'', ''publishedAt''])
        \<and> article_field a k' = Inr w"
  then show "truthy w \<or> w = JStr (js '''')"
    using or_else_empty_cases
    by (auto simp: article_field_def normalizeArticle_def split: if_splits)
qed

theorem falsy_field_defaulted_witness:
  "normalizeArticle
     (JObj (AList.update (js ''author'') (JStr (js '''')) [(js ''author'', JStr (js ''Ann''))]))
     = normalizeArticle (JObj (AList.delete (js ''author'') [(js ''author'', JStr (js ''Ann''))]))
   \<and> article_field (JObj (AList.update (js ''title'') (JNum (Fin 0)) [])) (js ''title'')
       = Inr (JStr (js ''''))
   \<and> article_field (JObj [(js ''publishedAt'', JBool False)]) (js ''publishedAt'')
       = Inr (JStr (js ''''))"
  using falsy_field_defaulted [of "JStr (js '''')" "js ''author''" "[(js ''author'', JStr (js ''Ann''))]"
      JNull "JObj []" "js ''title''" JNull]
    falsy_field_defaulted [of "JNum (Fin 0)" "js ''title''" "[]" "JStr (js '''')"
      "JObj [(js ''publishedAt'', JBool False)]" "js ''publishedAt''"
      "JStr (js '''')"]
  by (simp add: article_defaults_def article_field_def normalizeArticle_def)

section \<open>The news endpoint: mode selection and configuration\<close>

text \<open>With the key configured, the handler makes the one call that \<open>select_mode\<close>
  prepares.\<close>

lemma news_call:
  assumes "env_NEWS_API_KEY e = Some key" and "key \<noteq> []" and "\<not> nullish query"
  shows "fst (news P e axios_get query) =
     (case select_mode P (JStr key) (read_query query) of
        Inl err \<Rightarrow> [] | Inr (url, params) \<Rightarrow> [AxiosGet url (JObj params)])"
  using assms
  by (simp add: news_def news_try_def NEWS_API_KEY_def env_val_def split: sum.splits prod.splits)

lemma string_param_destructure:
  "string_param query k = Some s \<Longrightarrow> destructure query k (JStr []) = JStr s"
  by (auto simp: string_param_def destructure_def split: jsval.splits)

lemma param_or_destructure: "param_or query k d = destructure query k (JStr d)"
  by (simp add: param_or_def destructure_def split: jsval.splits)

lemma select_mode_strings:
  "select_mode P (JStr key)
     \<lparr>nq_q = JStr q, nq_country = JStr country, nq_category = JStr category,
      nq_from = JStr from, nq_to = JStr to,
      nq_pageSize = pageSize, nq_page = page, nq_sortBy = sortBy\<rparr> =
   Inr (if country \<noteq> [] \<or> category \<noteq> [] then
        (js ''https://newsapi.org/v2/top-headlines'',
          [(js ''apiKey'', JStr key), (js ''pageSize'', pageSize), (js ''page'', page)]
           @ sent_if (js ''country'') country
           @ (if category = [] then [] else [(js ''category'', JStr (toLowerCase P category))])
           @ sent_if (js ''q'') q)
      else
        (js ''https://newsapi.org/v2/everything'',
          [(js ''apiKey'', JStr key), (js ''pageSize'', pageSize), (js ''page'', page)]
           @ sent_if (js ''q'') q @ sent_if (js ''from'') from @ sent_if (js ''to'') to
           @ [(js ''sortBy'', sortBy)]
           @ (if q = [] then [(js ''q'', JStr (js ''news''))] else [])))"
  by (simp add: select_mode_def set_if_def sent_if_def headlines_url_def everything_url_def)

text \<open>
  Claim C3, as the code has it. For every request whose \<^verbatim>\<open>q\<close>, \<^verbatim>\<open>country\<close>,
  \<^verbatim>\<open>category\<close>, \<^verbatim>\<open>from\<close> and \<^verbatim>\<open>to\<close> are each absent or a string, with the key
  configured: if \<^verbatim>\<open>country\<close> or \<^verbatim>\<open>category\<close> is a non-empty string the one upstream
  call goes to the headlines endpoint with \<^verbatim>\<open>apiKey\<close>, \<^verbatim>\<open>pageSize\<close>, \<^verbatim>\<open>page\<close>, then
  \<^verbatim>\<open>country\<close>, the lowercased \<^verbatim>\<open>category\<close> and \<^verbatim>\<open>q\<close>, each only if not empty;
  otherwise it goes to the search endpoint with \<^verbatim>\<open>apiKey\<close>, \<^verbatim>\<open>pageSize\<close>, \<^verbatim>\<open>page\<close>,
  then \<^verbatim>\<open>q\<close>, \<^verbatim>\<open>from\<close>, \<^verbatim>\<open>to\<close>, each only if not empty, \<^verbatim>\<open>sortBy\<close>, and \<^verbatim>\<open>q\<close> set
  to \<^verbatim>\<open>"news"\<close> if it was empty. \<^verbatim>\<open>pageSize\<close>, \<^verbatim>\<open>page\<close> and \<^verbatim>\<open>sortBy\<close> are the
  request's own, or \<^verbatim>\<open>"10"\<close>, \<^verbatim>\<open>"1"\<close> and \<^verbatim>\<open>"publishedAt"\<close>.
\<close>

theorem mode_selection:
  assumes "env_NEWS_API_KEY e = Some key" and "key \<noteq> []" and "\<not> nullish query"
      and "string_param query (js ''q'') = Some q"
      and "string_param query (js ''country'') = Some country"
      and "string_param query (js ''category'') = Some category"
      and "string_param query (js ''from'') = Some from"
      and "string_param query (js ''to'') = Some to"
  shows "fst (news P e axios_get query) =
     [if country \<noteq> [] \<or> category \<noteq> [] then
        AxiosGet (js ''https://newsapi.org/v2/top-headlines'') (JObj
          ([(js ''apiKey'', JStr key),
            (js ''pageSize'', param_or query (js ''pageSize'') (js ''10'')),
            (js ''page'', param_or query (js ''page'') (js ''1''))]
           @ sent_if (js ''country'') country
           @ (if category = [] then [] else [(js ''category'', JStr (toLowerCase P category))])
           @ sent_if (js ''q'') q))
      else
        AxiosGet (js ''https://newsapi.org/v2/everything'') (JObj
          ([(js ''apiKey'', JStr key),
            (js ''pageSize'', param_or query (js ''pageSize'') (js ''10'')),
            (js ''page'', param_or query (js ''page'') (js ''1''))]
           @ sent_if (js ''q'') q @ sent_if (js ''from'') from @ sent_if (js ''to'') to
           @ [(js ''sortBy'', param_or query (js ''sortBy'') (js ''publishedAt''))]
           @ (if q = [] then [(js ''q'', JStr (js ''news''))] else [])))]"
proof -
  have rq: "read_query query =
      \<lparr>nq_q = JStr q, nq_country = JStr country, nq_category = JStr category,
       nq_from = JStr from, nq_to = JStr to,
       nq_pageSize = param_or query (js ''pageSize'') (js ''10''),
       nq_page = param_or query (js ''page'') (js ''1''),
       nq_sortBy = param_or query (js ''sortBy'') (js ''publishedAt'')\<rparr>"
    using assms(4-8)
    by (simp add: read_query_def string_param_destructure param_or_destructure)
  show ?thesis
    by (simp add: news_call [OF assms(1-3)] rq select_mode_strings)
qed

lemma ascii_lower_sample: "map ascii_lower (js ''Technology'') = js ''technology''"
  by (simp add: js_Cons ascii_lower_def)

theorem mode_selection_witness:
  "fst (news sample_platform sample_env sample_get (JObj [(js ''country'', JStr (js ''us''))]))
     = [AxiosGet (js ''https://newsapi.org/v2/top-headlines'') (JObj
          [(js ''apiKey'', JStr (js ''news-key'')), (js ''pageSize'', JStr (js ''10'')),
           (js ''page'', JStr (js ''1'')), (js ''country'', JStr (js ''us''))])]
   \<and> fst (news sample_platform sample_env sample_get
          (JObj [(js ''category'', JStr (js ''Technology'')), (js ''q'', JStr (js ''ai'')),
                 (js ''from'', JStr (js ''2024-01-01'')), (js ''pageSize'', JStr (js ''5''))]))
     = [AxiosGet (js ''https://newsapi.org/v2/top-headlines'') (JObj
          [(js ''apiKey'', JStr (js ''news-key'')), (js ''pageSize'', JStr (js ''5'')),
           (js ''page'', JStr (js ''1'')), (js ''category'', JStr (js ''technology'')),
           (js ''q'', JStr (js ''ai''))])]
   \<and> fst (news sample_platform sample_env sample_get
          (JObj [(js ''q'', JStr (js ''climate'')), (js ''from'', JStr (js ''2024-01-01'')),
                 (js ''to'', JStr (js ''2024-01-31'')), (js ''sortBy'', JStr (js ''relevancy'')),
                 (js ''pageSize'', JStr (js ''20'')), (js ''page'', JStr (js ''3''))]))
     = [AxiosGet (js ''https://newsapi.org/v2/everything'') (JObj
          [(js ''apiKey'', JStr (js ''news-key'')), (js ''pageSize'', JStr (js ''20'')),
           (js ''page'', JStr (js ''3'')), (js ''q'', JStr (js ''climate'')),
           (js ''from'', JStr (js ''2024-01-01'')), (js ''to'', JStr (js ''2024-01-31'')),
           (js ''sortBy'', JStr (js ''relevancy''))])]
   \<and> fst (news sample_platform sample_env sample_get (JObj [(js ''q'', JStr (js ''''))]))
     = [AxiosGet (js ''https://newsapi.org/v2/everything'') (JObj
          [(js ''apiKey'', JStr (js ''news-key'')), (js ''pageSize'', JStr (js ''10'')),
           (js ''page'', JStr (js ''1'')), (js ''sortBy'', JStr (js ''publishedAt'')),
           (js ''q'', JStr (js ''news''))])]"
proof -
  have key: "env_NEWS_API_KEY sample_env = Some (js ''news-key'')" "js ''news-key'' \<noteq> []"
    by (simp_all add: sample_env_def)
  have obj: "\<not> nullish (JObj kvs)" for kvs
    by simp
  have low: "toLowerCase sample_platform (js ''Technology'') = js ''technology''"
    by (simp add: sample_platform_def ascii_lower_sample)
  let ?r1 = "JObj [(js ''country'', JStr (js ''us''))]"
  let ?r2 = "JObj [(js ''category'', JStr (js ''Technology'')), (js ''q'', JStr (js ''ai'')),
                 (js ''from'', JStr (js ''2024-01-01'')), (js ''pageSize'', JStr (js ''5''))]"
  let ?r3 = "JObj [(js ''q'', JStr (js ''climate'')), (js ''from'', JStr (js ''2024-01-01'')),
                 (js ''to'', JStr (js ''2024-01-31'')), (js ''sortBy'', JStr (js ''relevancy'')),
                 (js ''pageSize'', JStr (js ''20'')), (js ''page'', JStr (js ''3''))]"
  let ?r4 = "JObj [(js ''q'', JStr (js ''''))]"
  have s1: "string_param ?r1 (js ''q'') = Some []" "string_param ?r1 (js ''country'') = Some (js ''us'')"
    "string_param ?r1 (js ''category'') = Some []" "string_param ?r1 (js ''from'') = Some []"
    "string_param ?r1 (js ''to'') = Some []"
    by (simp_all add: string_param_def)
  have s2: "string_param ?r2 (js ''q'') = Some (js ''ai'')" "string_param ?r2 (js ''country'') = Some []"
    "string_param ?r2 (js ''category'') = Some (js ''Technology'')"
    "string_param ?r2 (js ''from'') = Some (js ''2024-01-01'')"
    "string_param ?r2 (js ''to'') = Some []"
    by (simp_all add: string_param_def)
  have s3: "string_param ?r3 (js ''q'') = Some (js ''climate'')" "string_param ?r3 (js ''country'') = Some []"
    "string_param ?r3 (js ''category'') = Some []"
    "string_param ?r3 (js ''from'') = Some (js ''2024-01-01'')"
    "string_param ?r3 (js ''to'') = Some (js ''2024-01-31'')"
    by (simp_all add: string_param_def)
  have s4: "string_param ?r4 (js ''q'') = Some []" "string_param ?r4 (js ''country'') = Some []"
    "string_param ?r4 (js ''category'') = Some []" "string_param ?r4 (js ''from'') = Some []"
    "string_param ?r4 (js ''to'') = Some []"
    by (simp_all add: string_param_def)
  show ?thesis
    using mode_selection [OF key obj s1, of sample_platform sample_get]
      mode_selection [OF key obj s2, of sample_platform sample_get]
      mode_selection [OF key obj s3, of sample_platform sample_get]
      mode_selection [OF key obj s4, of sample_platform sample_get]
    by (simp add: sent_if_def low param_or_def)
qed

text \<open>
  Claim C3 as stated fails: a request with \<^verbatim>\<open>country\<close> given twice carries it as an
  array and has no \<^verbatim>\<open>category\<close>, so neither is a non-empty string; the handler tests
  truthiness, and the call goes to the headlines endpoint, not to the search endpoint.
\<close>

theorem array_country_counterexample:
  "read_prop (JObj [(js ''country'', JArr [JStr (js ''us''), JStr (js ''in'')])]) (js ''country'')
     = JArr [JStr (js ''us''), JStr (js ''in'')]
   \<and> read_prop (JObj [(js ''country'', JArr [JStr (js ''us''), JStr (js ''in'')])]) (js ''category'')
     = JUndefined
   \<and> fst (news sample_platform sample_env sample_get
          (JObj [(js ''country'', JArr [JStr (js ''us''), JStr (js ''in'')])]))
     = [AxiosGet (js ''https://newsapi.org/v2/top-headlines'') (JObj
          [(js ''apiKey'', JStr (js ''news-key'')), (js ''pageSize'', JStr (js ''10'')),
           (js ''page'', JStr (js ''1'')),
           (js ''country'', JArr [JStr (js ''us''), JStr (js ''in'')])])]
   \<and> js ''https://newsapi.org/v2/top-headlines'' \<noteq> js ''https://newsapi.org/v2/everything''"
  by (simp add: news_def news_try_def NEWS_API_KEY_def env_val_def sample_env_def
      read_query_def destructure_def select_mode_def set_if_def headlines_url_def
      split: sum.splits)

text \<open>
  Claim C4, as the code has it. For every request to the news endpoint, when
  \<^verbatim>\<open>NEWS_API_KEY\<close> is not set or empty, the handler answers 500 with the message that
  says which variable to set, and makes no upstream call. For every request to the enrich
  endpoint, when the provider is not \<^verbatim>\<open>openai\<close> or \<^verbatim>\<open>OPENAI_API_KEY\<close> is not set or
  empty, the handler answers 500 and makes no upstream call; the answer is the message
  that says which variables to set whenever the request has a body to destructure
  (\<^verbatim>\<open>req.body\<close> is neither \<^verbatim>\<open>undefined\<close> nor \<^verbatim>\<open>null\<close>).
\<close>

theorem missing_configuration:
  "(env_NEWS_API_KEY e \<in> {None, Some []} \<and> \<not> nullish query \<longrightarrow>
      news P e axios_get query = ([], \<lparr>status = 500, body = news_key_missing\<rparr>))
   \<and> (AI_PROVIDER P e \<noteq> js ''openai'' \<or> env_OPENAI_API_KEY e \<in> {None, Some []} \<longrightarrow>
        fst (enrich P e create req_body) = []
        \<and> status (snd (enrich P e create req_body)) = 500
        \<and> (\<not> nullish req_body \<longrightarrow>
             enrich P e create req_body = ([], \<lparr>status = 500, body = ai_not_configured\<rparr>)))"
proof (intro conjI impI)
  assume "env_NEWS_API_KEY e \<in> {None, Some []} \<and> \<not> nullish query"
  then show "news P e axios_get query = ([], \<lparr>status = 500, body = news_key_missing\<rparr>)"
    by (auto simp: news_def news_try_def NEWS_API_KEY_def env_val_def res_json_def
        news_key_missing_def)
next
  assume c: "AI_PROVIDER P e \<noteq> js ''openai'' \<or> env_OPENAI_API_KEY e \<in> {None, Some []}"
  then have none: "(if AI_PROVIDER P e \<noteq> js ''openai'' then None else openaiClient P e) = None"
    by (auto simp: openaiClient_def env_val_def)
  show "fst (enrich P e create req_body) = []"
    by (simp add: enrich_def enrich_try_def none Let_def)
  show "status (snd (enrich P e create req_body)) = 500"
    by (simp add: enrich_def enrich_try_def none Let_def res_json_def)
  show "enrich P e create req_body = ([], \<lparr>status = 500, body = ai_not_configured\<rparr>)"
    if "\<not> nullish req_body"
    using that
    by (simp add: enrich_def enrich_try_def none Let_def res_json_def ai_not_configured_def)
qed

theorem missing_configuration_witness:
  "news sample_platform no_env sample_get (JObj [(js ''q'', JStr (js ''climate''))])
     = ([], \<lparr>status = 500, body = JObj [(js ''error'',
         JStr (js ''NEWS_API_KEY missing. Add it to backend .env (NEWS_API_KEY=...).''))]\<rparr>)
   \<and> enrich sample_platform no_env (answer_with (js ''{}'')) (JObj [(js ''title'', JStr (js ''T''))])
     = ([], \<lparr>status = 500, body = JObj [(js ''error'',
         JStr (js ''AI provider not configured. Set AI_PROVIDER=openai and OPENAI_API_KEY in .env''))]\<rparr>)
   \<and> fst (enrich sample_platform no_env (answer_with (js ''{}'')) JUndefined) = []
   \<and> status (snd (enrich sample_platform no_env (answer_with (js ''{}'')) JUndefined)) = 500"
  using missing_configuration [of no_env "JObj [(js ''q'', JStr (js ''climate''))]" sample_platform
      sample_get "answer_with (js ''{}'')" "JObj [(js ''title'', JStr (js ''T''))]"]
    missing_configuration [of no_env "JObj [(js ''q'', JStr (js ''climate''))]" sample_platform
      sample_get "answer_with (js ''{}'')" JUndefined]
  by (simp add: no_env_def news_key_missing_def ai_not_configured_def)

text \<open>
  Claim C4 as stated fails: with nothing configured and a request whose body was not
  parsed (\<^verbatim>\<open>req.body\<close> is \<^verbatim>\<open>undefined\<close>), the destructuring of line 102 throws before
  the check of line 104, and the answer is the generic failure, not the configuration
  message.
\<close>

theorem missing_body_counterexample:
  "env_OPENAI_API_KEY no_env = None
   \<and> enrich sample_platform no_env (answer_with (js ''{}'')) JUndefined
     = ([], \<lparr>status = 500, body = JObj [(js ''error'', JStr (js ''Failed to enrich article''))]\<rparr>)
   \<and> body (snd (enrich sample_platform no_env (answer_with (js ''{}'')) JUndefined))
     \<noteq> ai_not_configured"
  by (simp add: no_env_def enrich_def enrich_try_def res_json_def ai_not_configured_def)

text \<open>
  The end-to-end example of the specification: a request for two technology headlines
  of the US, answered upstream with two records, the second without \<^verbatim>\<open>author\<close> and
  \<^verbatim>\<open>urlToImage\<close>.
\<close>

lemma news_end_to_end:
  "news sample_platform sample_env
     (\<lambda>url params. Inr (JObj [(js ''data'', JObj
        [(js ''status'', JStr (js ''ok'')),
         (js ''totalResults'', JNum (Fin 2)),
         (js ''articles'', JArr
            [JObj [(js ''source'', JObj [(js ''id'', JNull), (js ''name'', JStr (js ''Wired''))]),
                   (js ''author'', JStr (js ''Ann'')),
                   (js ''title'', JStr (js ''One'')),
                   (js ''description'', JStr (js ''First'')),
                   (js ''url'', JStr (js ''https://example.org/1'')),
                   (js ''urlToImage'', JStr (js ''https://example.org/1.png'')),
                   (js ''publishedAt'', JStr (js ''2024-01-01T00:00:00Z'')),
                   (js ''content'', JStr (js ''Text''))],
             JObj [(js ''source'', JObj [(js ''id'', JNull), (js ''name'', JStr (js ''Wired''))]),
                   (js ''title'', JStr (js ''Two'')),
                   (js ''url'', JStr (js ''https://example.org/2''))]])])]))
     (JObj [(js ''category'', JStr (js ''technology'')), (js ''country'', JStr (js ''us'')),
            (js ''pageSize'', JStr (js ''2''))])
   = ([AxiosGet headlines_url (JObj
         [(js ''apiKey'', JStr (js ''news-key'')), (js ''pageSize'', JStr (js ''2'')),
          (js ''page'', JStr (js ''1'')), (js ''country'', JStr (js ''us'')),
          (js ''category'', JStr (js ''technology''))])],
      \<lparr>status = 200, body = JObj
         [(js ''totalResults'', JNum (Fin 2)),
          (js ''articles'', JArr
             [JObj [(js ''title'', JStr (js ''One'')), (js ''source'', JStr (js ''Wired'')),
                    (js ''author'', JStr (js ''Ann'')), (js ''description'', JStr (js ''First'')),
                    (js ''content'', JStr (js ''Text'')),
                    (js ''url'', JStr (js ''https://example.org/1'')),
                    (js ''urlToImage'', JStr (js ''https://example.org/1.png'')),
                    (js ''publishedAt'', JStr (js ''2024-01-01T00:00:00Z''))],
              JObj [(js ''title'', JStr (js ''Two'')), (js ''source'', JStr (js ''Wired'')),
                    (js ''author'', JNull), (js ''description'', JStr (js '''')),
                    (js ''content'', JStr (js '''')),
                    (js ''url'', JStr (js ''https://example.org/2'')),
                    (js ''urlToImage'', JNull), (js ''publishedAt'', JStr (js ''''))]])]\<rparr>)"
proof -
  have low: "map ascii_lower (js ''technology'') = js ''technology''"
    by (simp add: js_Cons ascii_lower_def)
  show ?thesis
    by (simp add: news_def news_try_def NEWS_API_KEY_def env_val_def sample_env_def
        read_query_def destructure_def select_mode_def set_if_def sample_platform_def low
        news_response_def getProp_def normalizeArticle_def opt_prop_def res_json_def)
qed


section \<open>The enrichment endpoint: prompt, fallback and shape repair\<close>

text \<open>The template starts and ends with a line break, and \<^verbatim>\<open>trim\<close> removes exactly
  these two, whatever the text in between.\<close>

lemma prompt_trimmed: "prompt text = drop 1 prompt_head @ text @ butlast prompt_tail"
  by (simp add: prompt_def prompt_head_def prompt_tail_def trim_def js_append js_Cons is_ws_def)

lemma trim_white: "list_all is_ws s \<Longrightarrow> trim s = []"
  by (auto simp: trim_def list_all_iff dest: set_dropWhileD)

lemma client_provider: "openaiClient P e = Some key \<Longrightarrow> AI_PROVIDER P e = js ''openai''"
  by (simp add: openaiClient_def split: if_splits)

text \<open>With the provider configured, a body to destructure and fields that convert to
  strings, the handler makes one call; when the call resolves, the response is computed
  from the completion.\<close>

lemma enrich_completed:
  assumes "openaiClient P e = Some key" and "\<not> nullish req_body"
      and "enrich_text P (destructure req_body (js ''title'') (JStr (js '''')))
             (destructure req_body (js ''description'') (JStr (js '''')))
             (destructure req_body (js ''content'') (JStr (js ''''))) = Inr text"
      and "create key (chat_request (prompt text)) = Inr completion"
  shows "enrich P e create req_body =
     ([ChatCompletionsCreate key (chat_request (prompt text))],
      case enrich_response P completion of Inr r \<Rightarrow> r
      | Inl err \<Rightarrow> res_json 500 (JObj [(js ''error'', JStr (js ''Failed to enrich article''))]))"
  using assms client_provider [OF assms(1)]
  by (simp add: enrich_def enrich_try_def split: sum.splits)

lemma ensure_shape_fallback: "ensure_shape P fallback = Inr fallback"
  by (simp add: ensure_shape_def ensure_summary_def ensure_sentiment_def ensure_takeaways_def
      fallback_def getProp_def allowed_def)

lemma wire_fallback: "wire fallback = fallback"
  by (simp add: fallback_def)

lemma ensure_shape_empty:
  "ensure_shape P (JObj []) =
     Inr (JObj [(js ''summary100'', JStr (js '''')), (js ''sentiment'', JStr (js ''Neutral'')),
                (js ''takeaways'', JArr [JStr (js ''''), JStr (js ''''), JStr (js '''')])])"
  by (simp add: ensure_shape_def ensure_summary_def ensure_sentiment_def ensure_takeaways_def
      getProp_def allowed_def numeral_3_eq_3)

lemma raw_text_none: "no_text completion \<Longrightarrow> raw_text completion = Inr (js ''{}'')"
  by (auto simp: no_text_def raw_text_def getProp_def Let_def trim_white or_else_def
      split: jsval.splits list.splits)

lemma take_js [simp]: "take n (js s) = js (take n s)"
  by (simp add: js_def take_map)

lemma js_append_rev [simp]: "js a @ js b = js (a @ b)"
  by (simp add: js_def)

lemma enrich_text_strings:
  "enrich_text P (JStr title) (JStr description) (JStr content) =
     Inr (join (js ''\<newline>\<newline>'') (filter (\<lambda>s. s \<noteq> []) [title, description, content]))"
  by (simp add: enrich_text_def Array_join_def)

text \<open>
  Claim C7. For every input whose \<^verbatim>\<open>title\<close>, \<^verbatim>\<open>description\<close> and \<^verbatim>\<open>content\<close> are
  strings (each is the empty string when the body does not carry it), with the provider
  configured: the user message of the one request is the trimmed template around the
  blob, and the blob is the fields that are not empty, in that order, joined by a blank
  line (two line breaks); it is empty when all three are.
\<close>

theorem text_blob:
  assumes "openaiClient P e = Some key" and "\<not> nullish req_body"
      and "destructure req_body (js ''title'') (JStr (js '''')) = JStr title"
      and "destructure req_body (js ''description'') (JStr (js '''')) = JStr description"
      and "destructure req_body (js ''content'') (JStr (js '''')) = JStr content"
  shows "fst (enrich P e create req_body) =
     [ChatCompletionsCreate key (chat_request
        (drop 1 prompt_head
         @ join (js ''\<newline>\<newline>'') (filter (\<lambda>s. s \<noteq> []) [title, description, content])
         @ butlast prompt_tail))]
   \<and> (title = [] \<and> description = [] \<and> content = [] \<longrightarrow>
        join (js ''\<newline>\<newline>'') (filter (\<lambda>s. s \<noteq> []) [title, description, content]) = [])"
  using assms client_provider [OF assms(1)]
  by (simp add: enrich_def enrich_try_def enrich_text_strings prompt_trimmed split: sum.splits)

lemma raw_text_of_text:
  "completion_text completion = Some s \<Longrightarrow> trim s \<noteq> [] \<Longrightarrow> raw_text completion = Inr (trim s)"
  by (auto simp: completion_text_def raw_text_def getProp_def Let_def
      split: if_splits jsval.splits list.splits)

text \<open>
  Claim C5, as the code has it. With the provider configured and the call resolved: for
  every completion text that is not empty after trimming and that \<^verbatim>\<open>JSON.parse\<close>
  rejects, the handler answers 200 with the fixed fallback result (the
  summary-unavailable message, \<^verbatim>\<open>"Neutral"\<close>, the three fixed takeaways).
\<close>

theorem parse_failure_fallback:
  assumes "openaiClient P e = Some key" and "\<not> nullish req_body"
      and "enrich_text P (destructure req_body (js ''title'') (JStr (js '''')))
             (destructure req_body (js ''description'') (JStr (js '''')))
             (destructure req_body (js ''content'') (JStr (js ''''))) = Inr text"
      and "create key (chat_request (prompt text)) = Inr completion"
      and "completion_text completion = Some s"
      and "trim s \<noteq> []"
      and "JSON_parse P (trim s) = None"
  shows "snd (enrich P e create req_body) = \<lparr>status = 200, body = fallback\<rparr>"
  using assms(7)
  by (simp add: enrich_completed [where create = create, OF assms(1-4)] enrich_response_def
      parse_or_fallback_def raw_text_of_text [OF assms(5,6)]
      ensure_shape_fallback res_json_def wire_fallback)

text \<open>
  Claim C10. With the provider configured and the call resolved, on a runtime whose
  \<^verbatim>\<open>JSON.parse\<close> decodes \<^verbatim>\<open>{}\<close> as the empty object: for every completion with no
  choices, or whose first message text is missing, empty or white space only, the
  handler answers 200 with an empty summary, \<^verbatim>\<open>"Neutral"\<close> and three empty takeaways,
  which is not the fallback result.
\<close>

theorem no_text_empty_result:
  assumes "openaiClient P e = Some key" and "\<not> nullish req_body"
      and "enrich_text P (destructure req_body (js ''title'') (JStr (js '''')))
             (destructure req_body (js ''description'') (JStr (js '''')))
             (destructure req_body (js ''content'') (JStr (js ''''))) = Inr text"
      and "create key (chat_request (prompt text)) = Inr completion"
      and "no_text completion"
      and "JSON_parse P (js ''{}'') = Some (JObj [])"
  shows "snd (enrich P e create req_body) =
     \<lparr>status = 200,
      body = JObj [(js ''summary100'', JStr (js '''')), (js ''sentiment'', JStr (js ''Neutral'')),
                   (js ''takeaways'', JArr [JStr (js ''''), JStr (js ''''), JStr (js '''')])]\<rparr>
   \<and> body (snd (enrich P e create req_body)) \<noteq> fallback"
  using assms(6)
  by (simp add: enrich_completed [where create = create, OF assms(1-4)] enrich_response_def parse_or_fallback_def
      raw_text_none [OF assms(5)] ensure_shape_empty res_json_def fallback_def)

text \<open>
  Claim C1, evaluated where it fails. With the provider configured and the call resolved:
  for a completion whose text decodes to an object with \<^verbatim>\<open>summary100\<close> \<^verbatim>\<open>"ok"\<close>,
  \<^verbatim>\<open>sentiment\<close> \<^verbatim>\<open>"Positive"\<close> and \<^verbatim>\<open>takeaways\<close> the string \<^verbatim>\<open>"abcdef"\<close>, the handler answers
  200 with \<^verbatim>\<open>takeaways\<close> the string \<^verbatim>\<open>"abc"\<close>: not an array of three strings.
\<close>

theorem takeaways_string_kept:
  assumes "openaiClient P e = Some key" and "\<not> nullish req_body"
      and "enrich_text P (destructure req_body (js ''title'') (JStr (js '''')))
             (destructure req_body (js ''description'') (JStr (js '''')))
             (destructure req_body (js ''content'') (JStr (js ''''))) = Inr text"
      and "create key (chat_request (prompt text)) = Inr completion"
      and "raw_text completion = Inr raw"
      and "JSON_parse P raw =
             Some (JObj [(js ''summary100'', JStr (js ''ok'')),
                         (js ''sentiment'', JStr (js ''Positive'')),
                         (js ''takeaways'', JStr (js ''abcdef''))])"
  shows "snd (enrich P e create req_body) =
     \<lparr>status = 200,
      body = JObj [(js ''summary100'', JStr (js ''ok'')),
                   (js ''sentiment'', JStr (js ''Positive'')),
                   (js ''takeaways'', JStr (js ''abc''))]\<rparr>"
  using assms(5,6)
  by (simp add: enrich_completed [where create = create, OF assms(1-4)] enrich_response_def parse_or_fallback_def
      ensure_shape_def ensure_summary_def ensure_sentiment_def ensure_takeaways_def
      getProp_def allowed_def res_json_def numeral_3_eq_3)

subsection \<open>What the shape repair guarantees\<close>

text \<open>
  A decoded array passes the repair as it is, a decoded primitive or \<^verbatim>\<open>null\<close> makes it
  throw. For a decoded object, whenever the repair succeeds, \<^verbatim>\<open>summary100\<close> is a string
  of at most 900 code units, \<^verbatim>\<open>sentiment\<close> is one of the three labels, and \<^verbatim>\<open>takeaways\<close>
  is an array of three elements or a string of three code units.
\<close>

lemma ensure_shape_array: "ensure_shape P (JArr xs) = Inr (JArr xs)"
  by (simp add: ensure_shape_def ensure_summary_def ensure_sentiment_def ensure_takeaways_def
      getProp_def allowed_def numeral_3_eq_3)

lemma ensure_shape_primitive:
  "ensure_shape P JNull = Inl TypeError"
  "ensure_shape P (JBool b) = Inl TypeError"
  "ensure_shape P (JNum n) = Inl TypeError"
  "ensure_shape P (JStr s) = Inl TypeError"
  by (simp_all add: ensure_shape_def ensure_summary_def getProp_def)

lemma ensure_summary_object:
  assumes "ensure_summary P (JObj kvs) = Inr out"
  obtains s where "out = JObj (AList.update (js ''summary100'') (JStr s) kvs)" "length s \<le> 900"
  using assms
  by (auto simp: ensure_summary_def getProp_def andThen_def split: sum.splits)

lemma ensure_sentiment_object:
  assumes "ensure_sentiment (JObj kvs) = Inr out"
  obtains kvs' where "out = JObj kvs'" "read_prop out (js ''sentiment'') \<in> set allowed"
    "\<forall>k. k \<noteq> js ''sentiment'' \<longrightarrow> map_of kvs' k = map_of kvs k"
  using assms
  by (auto simp: ensure_sentiment_def update_conv' allowed_def split: if_splits)

lemma ensure_takeaways_object:
  assumes "ensure_takeaways P (JObj kvs) = Inr out"
  obtains kvs' where "out = JObj kvs'"
    "(\<exists>xs. read_prop out (js ''takeaways'') = JArr xs \<and> length xs = 3)
     \<or> (\<exists>s. read_prop out (js ''takeaways'') = JStr s \<and> length s = 3)"
    "\<forall>k. k \<noteq> js ''takeaways'' \<longrightarrow> map_of kvs' k = map_of kvs k"
proof (cases "case read_prop (JObj kvs) (js ''takeaways'') of JArr xs \<Rightarrow> length xs \<noteq> 3 | _ \<Rightarrow> True")
  case False
  then show ?thesis
    using assms that [of kvs]
    by (auto simp: ensure_takeaways_def Let_def split: jsval.splits)
next
  case True
  let ?t = "or_else (read_prop (JObj kvs) (js ''takeaways'')) (JArr [])"
  show ?thesis
  proof (cases ?t)
    case (JArr xs)
    then have "out = JObj (AList.update (js ''takeaways'')
        (JArr (take 3 (take 3 xs @ replicate 3 (JStr [])))) kvs)"
      using assms True by (simp add: ensure_takeaways_def Let_def)
    then show ?thesis
      using that [of "AList.update (js ''takeaways'')
        (JArr (take 3 (take 3 xs @ replicate 3 (JStr [])))) kvs"]
      by (simp add: update_conv')
  next
    case (JStr s)
    then have ne: "s \<noteq> []"
      by (auto simp: or_else_def split: if_splits)
    have "out = JObj (AList.update (js ''takeaways'')
        (JStr (take 3 (take 3 s @ js '',,''))) kvs)"
      using assms True JStr
      by (simp add: ensure_takeaways_def Let_def numeral_3_eq_3 js_Cons)
    moreover have "length (take 3 (take 3 s @ js '',,'')) = 3"
      using ne by (cases s) auto
    ultimately show ?thesis
      using that [of "AList.update (js ''takeaways'')
        (JStr (take 3 (take 3 s @ js '',,''))) kvs"]
      by (simp add: update_conv')
  qed (use assms True in \<open>simp_all add: ensure_takeaways_def Let_def\<close>)
qed

lemma ensure_shape_object:
  assumes "ensure_shape P (JObj kvs) = Inr out"
  shows "(\<exists>s. read_prop out (js ''summary100'') = JStr s \<and> length s \<le> 900)
       \<and> read_prop out (js ''sentiment'') \<in> set allowed
       \<and> ((\<exists>xs. read_prop out (js ''takeaways'') = JArr xs \<and> length xs = 3)
          \<or> (\<exists>s. read_prop out (js ''takeaways'') = JStr s \<and> length s = 3))"
proof -
  from assms obtain o1 o2 where 1: "ensure_summary P (JObj kvs) = Inr o1"
    and 2: "ensure_sentiment o1 = Inr o2" and 3: "ensure_takeaways P o2 = Inr out"
    by (auto simp: ensure_shape_def andThen_def split: sum.splits)
  from 1 obtain s where o1: "o1 = JObj (AList.update (js ''summary100'') (JStr s) kvs)"
    and s: "length s \<le> 900"
    by (rule ensure_summary_object)
  from 2 [unfolded o1] obtain kvs2 where o2: "o2 = JObj kvs2"
    and sent: "read_prop o2 (js ''sentiment'') \<in> set allowed"
    and same2: "\<forall>k. k \<noteq> js ''sentiment'' \<longrightarrow>
        map_of kvs2 k = map_of (AList.update (js ''summary100'') (JStr s) kvs) k"
    by (rule ensure_sentiment_object)
  from 3 [unfolded o2] obtain kvs3 where o3: "out = JObj kvs3"
    and take: "(\<exists>xs. read_prop out (js ''takeaways'') = JArr xs \<and> length xs = 3)
     \<or> (\<exists>s. read_prop out (js ''takeaways'') = JStr s \<and> length s = 3)"
    and same3: "\<forall>k. k \<noteq> js ''takeaways'' \<longrightarrow> map_of kvs3 k = map_of kvs2 k"
    by (rule ensure_takeaways_object)
  have "map_of kvs3 (js ''summary100'') = Some (JStr s)"
    using same3 same2 by (simp add: update_conv')
  moreover have "map_of kvs3 (js ''sentiment'') = map_of kvs2 (js ''sentiment'')"
    using same3 by simp
  ultimately show ?thesis
    using s sent take o2 o3 by simp
qed


text \<open>
  The examples of the specification: a label that is not allowed becomes \<^verbatim>\<open>"Neutral"\<close>,
  five takeaways are cut to the first three, one is padded with empty strings, a summary
  is cut at 900 code units. The elements of \<^verbatim>\<open>takeaways\<close> are kept whatever they are.
\<close>

lemma repair_examples:
  "ensure_shape P (JObj [(js ''sentiment'', JStr (js ''Angry'')),
                          (js ''takeaways'', JArr [a, b, c, d, e])])
     = Inr (JObj [(js ''sentiment'', JStr (js ''Neutral'')), (js ''takeaways'', JArr [a, b, c]),
                  (js ''summary100'', JStr (js ''''))])"
  "ensure_shape P (JObj [(js ''sentiment'', JStr (js ''Negative'')), (js ''takeaways'', JArr [a])])
     = Inr (JObj [(js ''sentiment'', JStr (js ''Negative'')),
                  (js ''takeaways'', JArr [a, JStr (js ''''), JStr (js '''')]),
                  (js ''summary100'', JStr (js ''''))])"
  "ensure_shape P (JObj [(js ''takeaways'', JArr [a, b, c])])
     = Inr (JObj [(js ''takeaways'', JArr [a, b, c]), (js ''summary100'', JStr (js '''')),
                  (js ''sentiment'', JStr (js ''Neutral''))])"
  "ensure_shape P (JObj [(js ''summary100'', JStr s)])
     = Inr (JObj [(js ''summary100'', JStr (take 900 s)), (js ''sentiment'', JStr (js ''Neutral'')),
                  (js ''takeaways'', JArr [JStr (js ''''), JStr (js ''''), JStr (js '''')])])"
  by (simp_all add: ensure_shape_def ensure_summary_def ensure_sentiment_def ensure_takeaways_def
      getProp_def allowed_def numeral_3_eq_3 or_else_def)


subsection \<open>The theorems at sample inputs\<close>

lemma sample_client: "openaiClient sample_platform sample_env = Some (js ''sk-key'')"
  by (simp add: openaiClient_def AI_PROVIDER_def sample_platform_def sample_env_def env_val_def
      js_Cons ascii_lower_def)

lemma sample_text:
  "enrich_text sample_platform
     (destructure (JObj [(js ''title'', JStr (js ''T''))]) (js ''title'') (JStr (js '''')))
     (destructure (JObj [(js ''title'', JStr (js ''T''))]) (js ''description'') (JStr (js '''')))
     (destructure (JObj [(js ''title'', JStr (js ''T''))]) (js ''content'') (JStr (js '''')))
   = Inr (js ''T'')"
  by (simp add: destructure_def enrich_text_strings)

lemma answer_with_raw:
  "trim text = text \<Longrightarrow> text \<noteq> [] \<Longrightarrow>
     answer_with text key request = Inr completion \<Longrightarrow> raw_text completion = Inr text"
  by (auto simp: answer_with_def raw_text_def getProp_def opt_prop_def)

theorem text_blob_witness:
  "fst (enrich sample_platform sample_env (answer_with (js ''{}''))
         (JObj [(js ''title'', JStr (js ''A'')), (js ''content'', JStr (js ''B''))]))
     = [ChatCompletionsCreate (js ''sk-key'') (chat_request
          (drop 1 prompt_head @ js ''A\<newline>\<newline>B'' @ butlast prompt_tail))]
   \<and> fst (enrich sample_platform sample_env (answer_with (js ''{}'')) (JObj []))
     = [ChatCompletionsCreate (js ''sk-key'') (chat_request
          (drop 1 prompt_head @ butlast prompt_tail))]"
proof -
  have obj: "\<not> nullish (JObj kvs)" for kvs
    by simp
  have a: "destructure (JObj [(js ''title'', JStr (js ''A'')), (js ''content'', JStr (js ''B''))])
             (js ''title'') (JStr (js '''')) = JStr (js ''A'')"
    and b: "destructure (JObj [(js ''title'', JStr (js ''A'')), (js ''content'', JStr (js ''B''))])
             (js ''description'') (JStr (js '''')) = JStr []"
    and c: "destructure (JObj [(js ''title'', JStr (js ''A'')), (js ''content'', JStr (js ''B''))])
             (js ''content'') (JStr (js '''')) = JStr (js ''B'')"
    by (simp_all add: destructure_def)
  have d: "destructure (JObj []) k (JStr (js '''')) = JStr []" for k
    by (simp add: destructure_def)
  show ?thesis
    using text_blob [OF sample_client obj a b c, of "answer_with (js ''{}'')"]
      text_blob [OF sample_client obj d d d, of "answer_with (js ''{}'')"]
    by simp
qed

theorem parse_failure_fallback_witness:
  "snd (enrich sample_platform sample_env (answer_with (js '' Sorry, no JSON today.\<newline>''))
         (JObj [(js ''title'', JStr (js ''T''))]))
   = \<lparr>status = 200, body = JObj
       [(js ''summary100'',
           JStr (js ''Summary not available due to parsing error. Please try again.'')),
        (js ''sentiment'', JStr (js ''Neutral'')),
        (js ''takeaways'', JArr
           [JStr (js ''Summary failed to parse.''),
            JStr (js ''Try again or open the article.''),
            JStr (js ''Check network/API limits.'')])]\<rparr>"
proof -
  let ?text = "js '' Sorry, no JSON today.\<newline>''"
  have obj: "\<not> nullish (JObj [(js ''title'', JStr (js ''T''))])"
    by simp
  have ans: "answer_with ?text (js ''sk-key'') (chat_request (prompt (js ''T'')))
      = Inr (JObj [(js ''choices'', JArr
       [JObj [(js ''index'', JNum (Fin 0)),
              (js ''message'', JObj [(js ''role'', JStr (js ''assistant'')),
                                     (js ''content'', JStr ?text)])]])])"
    by (simp add: answer_with_def)
  have ctext: "completion_text (JObj [(js ''choices'', JArr
       [JObj [(js ''index'', JNum (Fin 0)),
              (js ''message'', JObj [(js ''role'', JStr (js ''assistant'')),
                                     (js ''content'', JStr ?text)])]])]) = Some ?text"
    by (simp add: completion_text_def opt_prop_def)
  have tr: "trim ?text = js ''Sorry, no JSON today.''"
    by (simp add: trim_def js_Cons is_ws_def)
  have ne: "trim ?text \<noteq> []"
    by (simp add: tr)
  have bad: "JSON_parse sample_platform (trim ?text) = None"
    by (simp add: tr sample_platform_def sample_parse_def)
  show ?thesis
    using parse_failure_fallback [where create = "answer_with ?text",
        OF sample_client obj sample_text ans ctext ne bad]
    by (simp add: fallback_def)
qed

text \<open>
  Claim C5 as stated fails: a completion text of white space only is empty after
  trimming, and the empty text is not JSON (the sample runtime rejects it, as
  \<^verbatim>\<open>JSON.parse\<close> does); line 135 puts \<^verbatim>\<open>{}\<close> in its place, and the handler answers with
  the empty result, not with the fallback.
\<close>

theorem blank_text_counterexample:
  "trim (js ''  \<newline>'') = js ''''
   \<and> JSON_parse sample_platform (trim (js ''  \<newline>'')) = None
   \<and> snd (enrich sample_platform sample_env (answer_with (js ''  \<newline>''))
          (JObj [(js ''title'', JStr (js ''T''))]))
     = \<lparr>status = 200, body = JObj
         [(js ''summary100'', JStr (js '''')), (js ''sentiment'', JStr (js ''Neutral'')),
          (js ''takeaways'', JArr [JStr (js ''''), JStr (js ''''), JStr (js '''')])]\<rparr>
   \<and> body (snd (enrich sample_platform sample_env (answer_with (js ''  \<newline>''))
          (JObj [(js ''title'', JStr (js ''T''))]))) \<noteq> fallback"
proof -
  have tr: "trim (js ''  \<newline>'') = []"
    by (simp add: trim_def js_Cons is_ws_def)
  have bad: "JSON_parse sample_platform [] = None"
    using js_inj [of "''''" "''{}''"]
    by (simp add: sample_platform_def sample_parse_def del: js_inj)
  have ok: "JSON_parse sample_platform (js ''{}'') = Some (JObj [])"
    by (simp add: sample_platform_def sample_parse_def)
  have ans: "answer_with (js ''  \<newline>'') (js ''sk-key'') (chat_request (prompt (js ''T'')))
      = Inr (JObj [(js ''choices'', JArr
       [JObj [(js ''index'', JNum (Fin 0)),
              (js ''message'', JObj [(js ''role'', JStr (js ''assistant'')),
                                     (js ''content'', JStr (js ''  \<newline>''))])]])])"
    by (simp add: answer_with_def)
  have raw: "raw_text (JObj [(js ''choices'', JArr
       [JObj [(js ''index'', JNum (Fin 0)),
              (js ''message'', JObj [(js ''role'', JStr (js ''assistant'')),
                                     (js ''content'', JStr (js ''  \<newline>''))])]])])
      = Inr (js ''{}'')"
    by (simp add: raw_text_def getProp_def opt_prop_def tr)
  have obj: "\<not> nullish (JObj [(js ''title'', JStr (js ''T''))])"
    by simp
  have run: "enrich sample_platform sample_env (answer_with (js ''  \<newline>''))
          (JObj [(js ''title'', JStr (js ''T''))])
     = ([ChatCompletionsCreate (js ''sk-key'') (chat_request (prompt (js ''T'')))],
        \<lparr>status = 200, body = JObj
         [(js ''summary100'', JStr (js '''')), (js ''sentiment'', JStr (js ''Neutral'')),
          (js ''takeaways'', JArr [JStr (js ''''), JStr (js ''''), JStr (js '''')])]\<rparr>)"
    by (simp add: enrich_completed [where create = "answer_with (js ''  \<newline>'')",
          OF sample_client obj sample_text ans]
        enrich_response_def raw parse_or_fallback_def ok ensure_shape_empty res_json_def)
  show ?thesis
    by (simp add: tr bad run fallback_def)
qed

theorem no_text_empty_result_witness:
  "snd (enrich sample_platform sample_env (answer_with (js ''  \<newline>''))
         (JObj [(js ''title'', JStr (js ''T''))]))
   = \<lparr>status = 200, body = JObj
       [(js ''summary100'', JStr (js '''')), (js ''sentiment'', JStr (js ''Neutral'')),
        (js ''takeaways'', JArr [JStr (js ''''), JStr (js ''''), JStr (js '''')])]\<rparr>"
proof -
  have obj: "\<not> nullish (JObj [(js ''title'', JStr (js ''T''))])"
    by simp
  have ans: "answer_with (js ''  \<newline>'') (js ''sk-key'') (chat_request (prompt (js ''T'')))
      = Inr (JObj [(js ''choices'', JArr
       [JObj [(js ''index'', JNum (Fin 0)),
              (js ''message'', JObj [(js ''role'', JStr (js ''assistant'')),
                                     (js ''content'', JStr (js ''  \<newline>''))])]])])"
    by (simp add: answer_with_def)
  have none: "no_text (JObj [(js ''choices'', JArr
       [JObj [(js ''index'', JNum (Fin 0)),
              (js ''message'', JObj [(js ''role'', JStr (js ''assistant'')),
                                     (js ''content'', JStr (js ''  \<newline>''))])]])])"
    by (simp add: no_text_def opt_prop_def js_Cons is_ws_def)
  have ok: "JSON_parse sample_platform (js ''{}'') = Some (JObj [])"
    by (simp add: sample_platform_def sample_parse_def)
  show ?thesis
    using no_text_empty_result [where create = "answer_with (js ''  \<newline>'')",
        OF sample_client obj sample_text ans none ok]
    by simp
qed

theorem takeaways_string_kept_witness:
  \<open>snd (enrich sample_platform sample_env
          (answer_with (js ''{"summary100":"ok","sentiment":"Positive","takeaways":"abcdef"}''))
          (JObj [(js ''title'', JStr (js ''T''))]))
   = \<lparr>status = 200, body = JObj
       [(js ''summary100'', JStr (js ''ok'')), (js ''sentiment'', JStr (js ''Positive'')),
        (js ''takeaways'', JStr (js ''abc''))]\<rparr>\<close>
proof -
  let ?text = \<open>js ''{"summary100":"ok","sentiment":"Positive","takeaways":"abcdef"}''\<close>
  have obj: "\<not> nullish (JObj [(js ''title'', JStr (js ''T''))])"
    by simp
  have ans: "answer_with ?text (js ''sk-key'') (chat_request (prompt (js ''T'')))
      = Inr (JObj [(js ''choices'', JArr
       [JObj [(js ''index'', JNum (Fin 0)),
              (js ''message'', JObj [(js ''role'', JStr (js ''assistant'')),
                                     (js ''content'', JStr ?text)])]])])"
    by (simp add: answer_with_def)
  have tr: "trim ?text = ?text"
    by (simp add: trim_def js_Cons is_ws_def)
  have raw: "raw_text (JObj [(js ''choices'', JArr
       [JObj [(js ''index'', JNum (Fin 0)),
              (js ''message'', JObj [(js ''role'', JStr (js ''assistant'')),
                                     (js ''content'', JStr ?text)])]])])
      = Inr ?text"
    by (rule answer_with_raw [OF tr _ ans]) simp
  have parsed: "JSON_parse sample_platform ?text =
      Some (JObj [(js ''summary100'', JStr (js ''ok'')),
                  (js ''sentiment'', JStr (js ''Positive'')),
                  (js ''takeaways'', JStr (js ''abcdef''))])"
    by (simp add: sample_platform_def sample_parse_def)
  show ?thesis
    using takeaways_string_kept [where create = "answer_with ?text",
        OF sample_client obj sample_text ans raw parsed]
    by simp
qed


end
